theory Spec2Isabelle
  imports Main "HOL-Library.Sublist"
begin

section \<open>Values and exceptions of the script\<close>

text \<open>
  The program is one Streamlit script, \<^verbatim>\<open>streamlit_app.py\<close>. Its values are Python
  values; the ones that flow through the prompt pipeline come out of
  \<^verbatim>\<open>response.json()\<close>, so they are JSON values: \<open>JNull\<close> is Python's \<^verbatim>\<open>None\<close>,
  \<open>JObj\<close> lists the items of a \<^verbatim>\<open>dict\<close> (keys distinct, as in any dict), \<open>JArr\<close> is a
  \<^verbatim>\<open>list\<close>. A number is kept as the text Python prints for it: the script never
  computes with one.
\<close>

datatype json =
    JNull
  | JBool bool
  | JNum string
  | JStr string
  | JArr "json list"
  | JObj "(string \<times> json) list"

text \<open>
  Every way the script can stop early is an exception. \<open>RequestException\<close> is raised by
  \<^verbatim>\<open>requests.post\<close>, \<open>JSONDecodeError\<close> by \<^verbatim>\<open>response.json()\<close>, \<open>ParserError\<close>
  by \<^verbatim>\<open>pd.read_csv\<close>/\<^verbatim>\<open>pd.read_excel\<close>, \<open>FPDFException\<close> by the PDF library; the
  other three by the interpreter on subscripts, \<^verbatim>\<open>+\<close> and \<^verbatim>\<open>str.join\<close>.
\<close>

datatype exn =
    KeyError
  | IndexError
  | TypeError
  | JSONDecodeError
  | RequestException
  | ParserError
  | FPDFException

subsection \<open>Subscripts\<close>

text \<open>
  \<^verbatim>\<open>v["k"]\<close>: a dict looks the key up and raises KeyError without it; a list and a
  str accept only integer indices; nothing else is subscriptable.
\<close>

fun getitem_key :: "json \<Rightarrow> string \<Rightarrow> exn + json" where
  "getitem_key (JObj kvs) k = (case map_of kvs k of None \<Rightarrow> Inl KeyError | Some v \<Rightarrow> Inr v)"
| "getitem_key v k = Inl TypeError"

text \<open>
  \<^verbatim>\<open>v[0]\<close>: the first element of a list, the first character of a str (as a str),
  IndexError when either is empty; a dict decoded from JSON has str keys only, so the
  key \<^verbatim>\<open>0\<close> is missing; nothing else is subscriptable.
\<close>

fun getitem_0 :: "json \<Rightarrow> exn + json" where
  "getitem_0 (JArr []) = Inl IndexError"
| "getitem_0 (JArr (x # xs)) = Inr x"
| "getitem_0 (JStr []) = Inl IndexError"
| "getitem_0 (JStr (c # cs)) = Inr (JStr [c])"
| "getitem_0 (JObj kvs) = Inl KeyError"
| "getitem_0 v = Inl TypeError"

definition bind_exn :: "exn + 'a \<Rightarrow> ('a \<Rightarrow> exn + 'b) \<Rightarrow> exn + 'b" where
  "bind_exn m f = (case m of Inl e \<Rightarrow> Inl e | Inr a \<Rightarrow> f a)"

text \<open>\<^verbatim>\<open>res["candidates"][0]["content"]["parts"][0]["text"]\<close>, left to right.\<close>

definition extract_text :: "json \<Rightarrow> exn + json" where
  "extract_text res =
     bind_exn (getitem_key res ''candidates'') (\<lambda>a.
     bind_exn (getitem_0 a) (\<lambda>b.
     bind_exn (getitem_key b ''content'') (\<lambda>c.
     bind_exn (getitem_key c ''parts'') (\<lambda>d.
     bind_exn (getitem_0 d) (\<lambda>e.
     getitem_key e ''text'')))))"

subsection \<open>Strings\<close>

text \<open>
  \<^verbatim>\<open>s.split(c)\<close> for a one-character separator: never empty, \<^verbatim>\<open>''.split(c)\<close> is
  \<^verbatim>\<open>['']\<close>.
\<close>

fun split_on :: "char \<Rightarrow> string \<Rightarrow> string list" where
  "split_on c [] = [[]]"
| "split_on c (x # xs) =
     (if x = c then [] # split_on c xs
      else (case split_on c xs of [] \<Rightarrow> [[x]] | w # ws \<Rightarrow> (x # w) # ws))"

fun str_nat :: "nat \<Rightarrow> string" where
  "str_nat n =
     (if n < 10 then [char_of (48 + n)]
      else str_nat (n div 10) @ [char_of (48 + n mod 10)])"

declare str_nat.simps [simp del]

definition str_int :: "int \<Rightarrow> string" where
  "str_int i = (if i < 0 then CHR ''-'' # str_nat (nat (- i)) else str_nat (nat i))"

text \<open>
  \<^verbatim>\<open>sep.join(xs)\<close> on a list of strs.
\<close>

fun join :: "string \<Rightarrow> string list \<Rightarrow> string" where
  "join sep [] = []"
| "join sep [x] = x"
| "join sep (x # y # ys) = x @ sep @ join sep (y # ys)"

text \<open>
  \<^verbatim>\<open>s + v\<close> with a str on the left: concatenation when \<open>v\<close> is a str, TypeError
  for every other value (\<^verbatim>\<open>None\<close> included).
\<close>

fun str_add :: "string \<Rightarrow> json \<Rightarrow> exn + string" where
  "str_add s (JStr t) = Inr (s @ t)"
| "str_add s v = Inl TypeError"

section \<open>The environment of a run\<close>

record request =
  url :: string
  headers :: "(string \<times> string) list"
  payload :: json

text \<open>
  What the script reads of a \<^verbatim>\<open>requests.Response\<close>: \<open>body_json\<close> is what
  \<^verbatim>\<open>response.json()\<close> returns, \<open>None\<close> when the body is not JSON and the call raises.
\<close>

record response =
  status_code :: int
  response_text :: string
  body_json :: "json option"

datatype outcome = Raises | Answers response

text \<open>
  The loaded table. A cell or a column label is an integer or a str; tables with other
  cell types (floats, dates, missing values) are outside this model.
\<close>

datatype cell = CInt int | CStr string

record dataframe =
  columns :: "cell list"
  rows :: "cell list list"

record uploaded =
  name :: string
  content :: string

text \<open>
  The libraries the script calls are parameters of the model:
  \<^item> \<open>net n\<close> is the outcome of the \<open>n\<close>-th POST of the run (counted from 0), whatever
    was sent; a run sees each index once, so this covers every server;
  \<^item> \<open>repr v\<close> is Python's \<^verbatim>\<open>str(v)\<close> for a list or a dict;
  \<^item> \<open>pd_read_csv\<close> and \<open>pd_read_excel\<close> parse an upload or raise;
  \<^item> \<open>fpdf ls\<close> is what FPDF writes into the buffer after one page was added, the font
    set and \<^verbatim>\<open>multi_cell(0, 10, l)\<close> called for each \<open>l\<close> of \<open>ls\<close> in order, or the
    exception one of these calls raises.
\<close>

record env =
  net :: "nat \<Rightarrow> outcome"
  repr :: "json \<Rightarrow> string"
  pd_read_csv :: "uploaded \<Rightarrow> exn + dataframe"
  pd_read_excel :: "uploaded \<Rightarrow> exn + dataframe"
  fpdf :: "string list \<Rightarrow> exn + string"

section \<open>The trace of a run\<close>

text \<open>
  Everything the script does to the outside is an event, in the order it happens: the
  POST requests, what it shows through Streamlit, and its pauses. The static page
  decoration (title, introduction, rule, caption) carries no data of the run and is
  recorded without its text. \<open>St_download_button\<close> has label, data, file name and MIME
  type; \<open>St_expander_text\<close> the expander's label and the text shown in it.
\<close>

datatype event =
    Post request
  | St_title
  | St_intro
  | St_rule
  | St_caption
  | St_info string
  | St_error string
  | St_markdown string
  | St_write json
  | St_dataframe dataframe
  | St_success string
  | St_warning string
  | St_download_button string string string string
  | St_expander_text string string
  | Sleep nat

text \<open>
  A piece of the script takes the trace so far and returns its value, or the exception
  that ended it, with the trace extended.
\<close>

type_synonym 'a prog = "event list \<Rightarrow> (exn + 'a) \<times> event list"

definition ret :: "'a \<Rightarrow> 'a prog" where
  "ret a tr = (Inr a, tr)"

definition emit :: "event \<Rightarrow> unit prog" where
  "emit e tr = (Inr (), tr @ [e])"

definition lift :: "exn + 'a \<Rightarrow> 'a prog" where
  "lift m tr = (m, tr)"

definition bnd :: "'a prog \<Rightarrow> ('a \<Rightarrow> 'b prog) \<Rightarrow> 'b prog" where
  "bnd m f tr = (case m tr of (Inl e, tr') \<Rightarrow> (Inl e, tr') | (Inr a, tr') \<Rightarrow> f a tr')"

fun posts :: "event list \<Rightarrow> request list" where
  "posts [] = []"
| "posts (Post r # es) = r # posts es"
| "posts (e # es) = posts es"

section \<open>The Remote Text Generator\<close>

definition gemini_request :: "string \<Rightarrow> string \<Rightarrow> request" where
  "gemini_request api_key prompt =
     \<lparr> url = ''https://generativelanguage.googleapis.com/v1beta/models/gemini-pro:generateContent'',
       headers = [(''Authorization'', ''Bearer '' @ api_key),
                  (''Content-Type'', ''application/json'')],
       payload = JObj [(''contents'',
                   JArr [JObj [(''parts'', JArr [JObj [(''text'', JStr prompt)]])]])] \<rparr>"

definition requests_post :: "env \<Rightarrow> request \<Rightarrow> response prog" where
  "requests_post E rq tr =
     (case net E (length (posts tr)) of
        Raises \<Rightarrow> (Inl RequestException, tr @ [Post rq])
      | Answers r \<Rightarrow> (Inr r, tr @ [Post rq]))"

definition response_json :: "response \<Rightarrow> exn + json" where
  "response_json r = (case body_json r of None \<Rightarrow> Inl JSONDecodeError | Some j \<Rightarrow> Inr j)"

definition call_gemini_api :: "env \<Rightarrow> string \<Rightarrow> string \<Rightarrow> json prog" where
  "call_gemini_api E api_key prompt =
     bnd (requests_post E (gemini_request api_key prompt)) (\<lambda>response.
       if status_code response = 200 then
         bnd (lift (response_json response)) (\<lambda>res.
         lift (extract_text res))
       else
         bnd (emit (St_error (''Gemini API Error: '' @ response_text response))) (\<lambda>_.
         ret JNull))"

definition progress_step :: "nat \<Rightarrow> string \<Rightarrow> nat \<Rightarrow> unit prog" where
  "progress_step step_num step_name total_steps =
     emit (St_info (''Step '' @ str_nat step_num @ ''/'' @ str_nat total_steps @ '': '' @ step_name))"

section \<open>The Document Exporter\<close>

text \<open>
  \<^verbatim>\<open>create_pdf\<close> splits the report at newlines and gives each line to FPDF; all the
  rest (page, font, wrapping, page breaks, the bytes written) is the library's.
\<close>

definition create_pdf :: "env \<Rightarrow> string \<Rightarrow> string prog" where
  "create_pdf E report_text = lift (fpdf E (split_on CHR ''\<newline>'' report_text))"

section \<open>The table as text\<close>

definition head :: "nat \<Rightarrow> dataframe \<Rightarrow> dataframe" where
  "head n df = df\<lparr>rows := take n (rows df)\<rparr>"

text \<open>
  \<^verbatim>\<open>df.to_csv(index=False)\<close> with pandas' defaults on a POSIX system: a header line of
  the column labels, then one line per row, fields separated by commas, lines ended by a
  newline. A str field that holds a comma, a double quote or a line break is written in
  double quotes with its quotes doubled; a line that would be empty for a single empty
  field is written as two double quotes.
\<close>

definition csv_field :: "cell \<Rightarrow> string" where
  "csv_field c =
     (case c of
        CInt i \<Rightarrow> str_int i
      | CStr s \<Rightarrow>
          if list_ex (\<lambda>x. x = CHR '','' \<or> x = CHR 0x22 \<or> x = CHR ''\<newline>'' \<or> x = CHR 0x0D) s
          then [CHR 0x22] @ concat (map (\<lambda>x. if x = CHR 0x22 then [x, x] else [x]) s) @ [CHR 0x22]
          else s)"

definition csv_row :: "cell list \<Rightarrow> string" where
  "csv_row cs =
     (if map csv_field cs = [[]] then [CHR 0x22, CHR 0x22] else join '','' (map csv_field cs))
     @ ''\<newline>''"

definition to_csv :: "dataframe \<Rightarrow> string" where
  "to_csv df = concat (map csv_row (columns df # rows df))"

text \<open>
  \<^verbatim>\<open>', '.join(df.columns)\<close>: \<^verbatim>\<open>str.join\<close> raises TypeError at a label that is not a
  str.
\<close>

fun label_strs :: "cell list \<Rightarrow> exn + string list" where
  "label_strs [] = Inr []"
| "label_strs (CStr s # cs) = bind_exn (label_strs cs) (\<lambda>ss. Inr (s # ss))"
| "label_strs (c # cs) = Inl TypeError"

definition join_columns :: "dataframe \<Rightarrow> exn + string" where
  "join_columns df = bind_exn (label_strs (columns df)) (\<lambda>ss. Inr (join '', '' ss))"

section \<open>The prompts\<close>

text \<open>
  An f-string field \<^verbatim>\<open>{v}\<close> is \<^verbatim>\<open>str(v)\<close>: a str is itself, \<^verbatim>\<open>None\<close> is the text
  \<^verbatim>\<open>None\<close>.
\<close>

definition py_str :: "env \<Rightarrow> json \<Rightarrow> string" where
  "py_str E v =
     (case v of
        JNull \<Rightarrow> ''None''
      | JBool b \<Rightarrow> (if b then ''True'' else ''False'')
      | JNum s \<Rightarrow> s
      | JStr s \<Rightarrow> s
      | _ \<Rightarrow> repr E v)"

definition profile_prompt :: "dataframe \<Rightarrow> exn + string" where
  "profile_prompt df =
     bind_exn (Inr (to_csv (head 2 df))) (\<lambda>csv.
     bind_exn (join_columns df) (\<lambda>names.
     Inr (''You are an expert data analyst. Here are the top 2 rows:\<newline>'' @ csv
          @ ''\<newline>\<newline>Column names: '' @ names
          @ ''\<newline>\<newline>Profile this data and guess the domain/use-case. Return the profile, types, missing values, and business context.'')))"

definition cleaning_prompt :: "env \<Rightarrow> json \<Rightarrow> string" where
  "cleaning_prompt E profile_result =
     ''Given this data profile:\<newline>'' @ py_str E profile_result
     @ ''\<newline>Suggest cleaning steps and apply them. Return python code for cleaning and a summary of changes.''"

definition metrics_prompt :: string where
  "metrics_prompt =
     ''Based on the cleaned data and profile, identify the most important KPIs and metrics to track. Suggest feature engineering if any. Output metric definitions and a sample calculation.''"

definition analysis_prompt :: "env \<Rightarrow> json \<Rightarrow> string" where
  "analysis_prompt E metrics_result =
     ''Given the data and metrics:\<newline>'' @ py_str E metrics_result
     @ ''\<newline>Perform exploratory data analysis and highlight hidden patterns, outliers, or unusual trends.''"

definition insights_prompt :: string where
  "insights_prompt =
     ''Summarize actionable business insights and recommendations from the previous analysis. Focus on recent performance, possible optimizations, and next steps.''"

section \<open>The Prompt Pipeline\<close>

text \<open>
  What every stage does once its prompt is built: the call, the heading, the result on
  screen, the pause.
\<close>

definition ask :: "env \<Rightarrow> string \<Rightarrow> string \<Rightarrow> string \<Rightarrow> json prog" where
  "ask E api_key prompt heading =
     bnd (call_gemini_api E api_key prompt) (\<lambda>result.
     bnd (emit (St_markdown heading)) (\<lambda>_.
     bnd (emit (St_write result)) (\<lambda>_.
     bnd (emit (Sleep 1)) (\<lambda>_.
     ret result))))"

definition stage_profile :: "env \<Rightarrow> string \<Rightarrow> dataframe \<Rightarrow> nat \<Rightarrow> nat \<Rightarrow> json prog" where
  "stage_profile E api_key df step total_steps =
     bnd (progress_step step ''Profiling Data...'' total_steps) (\<lambda>_.
     bnd (emit (St_dataframe (head 10 df))) (\<lambda>_.
     bnd (lift (profile_prompt df)) (\<lambda>prompt.
     ask E api_key prompt ''**Profile Result:**'')))"

definition stage_cleaning :: "env \<Rightarrow> string \<Rightarrow> json \<Rightarrow> nat \<Rightarrow> nat \<Rightarrow> json prog" where
  "stage_cleaning E api_key profile_result step total_steps =
     bnd (progress_step step ''Data Cleaning...'' total_steps) (\<lambda>_.
     ask E api_key (cleaning_prompt E profile_result) ''**Cleaning Steps:**'')"

definition stage_metrics :: "env \<Rightarrow> string \<Rightarrow> nat \<Rightarrow> nat \<Rightarrow> json prog" where
  "stage_metrics E api_key step total_steps =
     bnd (progress_step step ''Calculating Metrics and Engineering Features...'' total_steps) (\<lambda>_.
     ask E api_key metrics_prompt ''**Key Metrics & Features:**'')"

definition stage_analysis :: "env \<Rightarrow> string \<Rightarrow> json \<Rightarrow> nat \<Rightarrow> nat \<Rightarrow> json prog" where
  "stage_analysis E api_key metrics_result step total_steps =
     bnd (progress_step step ''Finding Hidden Patterns & Analysis...'' total_steps) (\<lambda>_.
     ask E api_key (analysis_prompt E metrics_result) ''**Hidden Patterns:**'')"

definition stage_insights :: "env \<Rightarrow> string \<Rightarrow> nat \<Rightarrow> nat \<Rightarrow> json prog" where
  "stage_insights E api_key step total_steps =
     bnd (progress_step step ''Generating Insights & Recommendations...'' total_steps) (\<lambda>_.
     ask E api_key insights_prompt ''**Actionable Insights:**'')"

text \<open>The five stages in the script's order; \<open>step\<close> counts up after each.\<close>

definition stages :: "env \<Rightarrow> string \<Rightarrow> dataframe \<Rightarrow> nat \<Rightarrow> (json \<times> json \<times> json \<times> json \<times> json) prog" where
  "stages E api_key df total_steps =
     bnd (stage_profile E api_key df 1 total_steps) (\<lambda>profile_result.
     bnd (stage_cleaning E api_key profile_result 2 total_steps) (\<lambda>cleaning_result.
     bnd (stage_metrics E api_key 3 total_steps) (\<lambda>metrics_result.
     bnd (stage_analysis E api_key metrics_result 4 total_steps) (\<lambda>analysis_result.
     bnd (stage_insights E api_key 5 total_steps) (\<lambda>insights_result.
     ret (profile_result, cleaning_result, metrics_result, analysis_result, insights_result))))))"

section \<open>The Report Assembler\<close>

text \<open>The chain of \<^verbatim>\<open>+\<close> is evaluated left to right and stops at the first TypeError.\<close>

definition full_report :: "json \<Rightarrow> json \<Rightarrow> json \<Rightarrow> json \<Rightarrow> json \<Rightarrow> exn + string" where
  "full_report profile_result cleaning_result metrics_result analysis_result insights_result =
     bind_exn (str_add ''DATA PROFILE:\<newline>'' profile_result) (\<lambda>s1.
     bind_exn (str_add (s1 @ ''\<newline>\<newline>'' @ ''DATA CLEANING STEPS:\<newline>'') cleaning_result) (\<lambda>s2.
     bind_exn (str_add (s2 @ ''\<newline>\<newline>'' @ ''KEY METRICS & FEATURES:\<newline>'') metrics_result) (\<lambda>s3.
     bind_exn (str_add (s3 @ ''\<newline>\<newline>'' @ ''HIDDEN PATTERNS & ANALYSIS:\<newline>'') analysis_result) (\<lambda>s4.
     bind_exn (str_add (s4 @ ''\<newline>\<newline>'' @ ''ACTIONABLE INSIGHTS & RECOMMENDATIONS:\<newline>'') insights_result) (\<lambda>s5.
     Inr (s5 @ ''\<newline>\<newline>''))))))"

definition stage_report :: "env \<Rightarrow> json \<times> json \<times> json \<times> json \<times> json \<Rightarrow> nat \<Rightarrow> nat \<Rightarrow> unit prog" where
  "stage_report E results step total_steps =
     (case results of (profile_result, cleaning_result, metrics_result, analysis_result, insights_result) \<Rightarrow>
     bnd (progress_step step ''Generating PDF Report...'' total_steps) (\<lambda>_.
     bnd (lift (full_report profile_result cleaning_result metrics_result analysis_result insights_result)) (\<lambda>report.
     bnd (create_pdf E report) (\<lambda>pdf_buffer.
     bnd (emit (St_success ''Analysis Complete! Download your report below:'')) (\<lambda>_.
     bnd (emit (St_download_button ''Download PDF Report'' pdf_buffer ''data_analysis_report.pdf'' ''application/pdf'')) (\<lambda>_.
     emit (St_expander_text ''Full Report'' report)))))))"

section \<open>The script\<close>

definition read_upload :: "env \<Rightarrow> uploaded \<Rightarrow> exn + dataframe" where
  "read_upload E uploaded_file =
     (let file_ext = last (split_on CHR ''.'' (name uploaded_file))
      in if file_ext = ''csv'' then pd_read_csv E uploaded_file else pd_read_excel E uploaded_file)"

definition pipeline :: "env \<Rightarrow> string \<Rightarrow> dataframe \<Rightarrow> unit prog" where
  "pipeline E api_key df =
     bnd (stages E api_key df 6) (\<lambda>results.
     stage_report E results 6 6)"

definition generate_report :: "env \<Rightarrow> string \<Rightarrow> uploaded \<Rightarrow> unit prog" where
  "generate_report E api_key uploaded_file =
     bnd (lift (read_upload E uploaded_file)) (\<lambda>df.
     pipeline E api_key df)"

text \<open>
  One run of the script from the top: \<open>api_key\<close> is what the text input holds,
  \<open>uploaded_file\<close> what the uploader holds (\<open>None\<close> without an upload), \<open>button\<close> whether
  \<^verbatim>\<open>st.button("Generate Report")\<close> returns true in this run. The button is drawn, and
  read, only inside the first branch.
\<close>

definition script :: "env \<Rightarrow> string \<Rightarrow> uploaded option \<Rightarrow> bool \<Rightarrow> unit prog" where
  "script E api_key uploaded_file button =
     bnd (emit St_title) (\<lambda>_.
     bnd (emit St_intro) (\<lambda>_.
     bnd (if api_key \<noteq> [] \<and> uploaded_file \<noteq> None then
            bnd (emit (St_success ''API key and data file received!'')) (\<lambda>_.
            if button then generate_report E api_key (the uploaded_file) else ret ())
          else
            emit (St_warning ''Please enter your Gemini API key and upload a dataset to proceed.'')) (\<lambda>_.
     bnd (emit St_rule) (\<lambda>_.
     emit St_caption))))"

definition run :: "env \<Rightarrow> string \<Rightarrow> uploaded option \<Rightarrow> bool \<Rightarrow> (exn + unit) \<times> event list" where
  "run E api_key uploaded_file button = script E api_key uploaded_file button []"

section \<open>Notions of the specification\<close>

text \<open>
  The specification speaks of a call that fails (a response whose status is not 200) and
  of the first candidate's first text part of a response body. Both are written down
  here from its words, to be compared with what the script computes.
\<close>

definition failed :: "outcome \<Rightarrow> bool" where
  "failed oc = (case oc of Raises \<Rightarrow> False | Answers r \<Rightarrow> status_code r \<noteq> 200)"

definition first_text_part :: "json \<Rightarrow> json option" where
  "first_text_part res =
     (case res of
        JObj kvs \<Rightarrow>
          (case map_of kvs ''candidates'' of
             Some (JArr (JObj cand # _)) \<Rightarrow>
               (case map_of cand ''content'' of
                  Some (JObj cont) \<Rightarrow>
                    (case map_of cont ''parts'' of
                       Some (JArr (JObj prt # _)) \<Rightarrow> map_of prt ''text''
                     | _ \<Rightarrow> None)
                | _ \<Rightarrow> None)
           | _ \<Rightarrow> None)
      | _ \<Rightarrow> None)"

definition succeeded :: "outcome \<Rightarrow> json option" where
  "succeeded oc =
     (case oc of
        Raises \<Rightarrow> None
      | Answers r \<Rightarrow>
          if status_code r = 200
          then (case body_json r of None \<Rightarrow> None | Some res \<Rightarrow> first_text_part res)
          else None)"

definition benign :: "outcome \<Rightarrow> bool" where
  "benign oc = (failed oc \<or> succeeded oc \<noteq> None)"

section \<open>Concrete inputs\<close>

text \<open>
  A response body of the shape the script indexes, a well-formed and a malformed
  success, a refusal, a network that answers from a list, and the two-column table of
  the specification.
\<close>

definition body_with_text :: "json \<Rightarrow> json" where
  "body_with_text t =
     JObj [(''candidates'', JArr [JObj [(''content'', JObj [(''parts'', JArr [JObj [(''text'', t)]])])]])]"

definition ok_response :: "string \<Rightarrow> response" where
  "ok_response s =
     \<lparr> status_code = 200, response_text = ''{...}'', body_json = Some (body_with_text (JStr s)) \<rparr>"

definition empty_object_response :: response where
  "empty_object_response = \<lparr> status_code = 200, response_text = ''{}'', body_json = Some (JObj []) \<rparr>"

definition error_response :: response where
  "error_response =
     \<lparr> status_code = 401, response_text = ''API key not valid'', body_json = None \<rparr>"

definition replies :: "outcome list \<Rightarrow> nat \<Rightarrow> outcome" where
  "replies ocs n = (if n < length ocs then ocs ! n else Raises)"

definition df_ab :: dataframe where
  "df_ab = \<lparr> columns = [CStr ''a'', CStr ''b''], rows = [[CInt 1, CInt 2], [CInt 3, CInt 4]] \<rparr>"

definition const_str :: "json \<Rightarrow> string" where
  "const_str v = ''[...]''"

definition reads_ab :: "uploaded \<Rightarrow> exn + dataframe" where
  "reads_ab f = Inr df_ab"

definition plain_pdf :: "string list \<Rightarrow> exn + string" where
  "plain_pdf ls = Inr (concat ls)"

definition env_of :: "outcome list \<Rightarrow> env" where
  "env_of ocs =
     \<lparr> net = replies ocs, repr = const_str, pd_read_csv = reads_ab, pd_read_excel = reads_ab,
       fpdf = plain_pdf \<rparr>"

definition upload_ab :: uploaded where
  "upload_ab = \<lparr> name = ''data.csv'', content = ''a,b\<newline>1,2\<newline>3,4\<newline>'' \<rparr>"

definition prompt_ab :: string where
  "prompt_ab = ''You are an expert data analyst. Here are the top 2 rows:\<newline>a,b\<newline>1,2\<newline>3,4\<newline>\<newline>\<newline>Column names: a, b\<newline>\<newline>Profile this data and guess the domain/use-case. Return the profile, types, missing values, and business context.''"

definition mixed_replies :: "outcome list" where
  "mixed_replies = [Answers error_response, Answers (ok_response ''<cleaning>''), Answers error_response,
      Answers (ok_response ''<patterns>''), Answers (ok_response ''<insights>'')]"

definition ok_replies :: "outcome list" where
  "ok_replies = [Answers (ok_response ''<profile>''), Answers (ok_response ''<cleaning>''),
      Answers (ok_response ''<metrics>''), Answers (ok_response ''<patterns>''),
      Answers (ok_response ''<insights>'')]"

definition first_fails :: "outcome list" where
  "first_fails = [Answers error_response, Answers (ok_response ''<cleaning>''),
      Answers (ok_response ''<metrics>''), Answers (ok_response ''<patterns>''),
      Answers (ok_response ''<insights>'')]"

definition df_long :: "cell list \<Rightarrow> dataframe" where
  "df_long last_row =
     \<lparr> columns = [CStr ''a'', CStr ''b''], rows = replicate 10 [CInt 1, CInt 2] @ [last_row] \<rparr>"

section \<open>Basic facts\<close>

lemma bind_exn_simps [simp]:
  "bind_exn (Inl e) f = Inl e"
  "bind_exn (Inr a) f = f a"
  by (simp_all add: bind_exn_def)

lemma bind_exn_Inr: "bind_exn m f = Inr y \<longleftrightarrow> (\<exists>a. m = Inr a \<and> f a = Inr y)"
  by (cases m) auto

lemma bnd_emit [simp]: "bnd (emit e) f tr = f () (tr @ [e])"
  by (simp add: bnd_def emit_def)

lemma bnd_ret [simp]: "bnd (ret a) f tr = f a tr"
  by (simp add: bnd_def ret_def)

lemma bnd_lift [simp]:
  "bnd (lift (Inr a)) f tr = f a tr"
  "bnd (lift (Inl e)) f tr = (Inl e, tr)"
  by (simp_all add: bnd_def lift_def)

lemma posts_append [simp]: "posts (xs @ ys) = posts xs @ posts ys"
  by (induction xs rule: posts.induct) simp_all

subsection \<open>The subscript chain finds exactly the first candidate's first text part\<close>

lemma getitem_key_Inr:
  "getitem_key v k = Inr x \<longleftrightarrow> (\<exists>kvs. v = JObj kvs \<and> map_of kvs k = Some x)"
  by (cases v) (auto split: option.splits)

lemma getitem_0_Inr:
  "getitem_0 v = Inr x \<longleftrightarrow>
     (\<exists>xs. v = JArr (x # xs)) \<or> (\<exists>c cs. v = JStr (c # cs) \<and> x = JStr [c])"
  by (cases v rule: getitem_0.cases) auto

lemma extract_text_iff: "extract_text res = Inr t \<longleftrightarrow> first_text_part res = Some t"
  unfolding extract_text_def first_text_part_def bind_exn_Inr getitem_key_Inr getitem_0_Inr
  by (auto split: json.splits option.splits list.splits)

subsection \<open>One call, by its outcome\<close>

lemma failedE:
  assumes "failed oc"
  obtains r where "oc = Answers r" and "status_code r \<noteq> 200"
  using assms by (cases oc) (simp_all add: failed_def)

lemma succeededE:
  assumes "succeeded oc = Some t"
  obtains r res where "oc = Answers r" and "status_code r = 200"
    and "body_json r = Some res" and "first_text_part res = Some t"
  using assms by (cases oc) (auto simp: succeeded_def split: if_splits option.splits)

lemma call_failed:
  assumes "net E (length (posts tr)) = Answers r" and "status_code r \<noteq> 200"
  shows "call_gemini_api E api_key prompt tr =
           (Inr JNull, tr @ [Post (gemini_request api_key prompt),
                             St_error (''Gemini API Error: '' @ response_text r)])"
  using assms by (simp add: call_gemini_api_def requests_post_def bnd_def emit_def ret_def)

lemma call_succeeded:
  assumes "net E (length (posts tr)) = Answers r" and "status_code r = 200"
    and "body_json r = Some res" and "first_text_part res = Some t"
  shows "call_gemini_api E api_key prompt tr = (Inr t, tr @ [Post (gemini_request api_key prompt)])"
proof -
  have "extract_text res = Inr t"
    using assms(4) by (simp add: extract_text_iff)
  then show ?thesis
    using assms(1-3)
    by (simp add: call_gemini_api_def requests_post_def bnd_def lift_def response_json_def)
qed

lemma ask_failed:
  assumes "net E (length (posts tr)) = Answers r" and "status_code r \<noteq> 200"
  shows "ask E api_key prompt heading tr =
           (Inr JNull, tr @ [Post (gemini_request api_key prompt),
                             St_error (''Gemini API Error: '' @ response_text r),
                             St_markdown heading, St_write JNull, Sleep 1])"
  by (simp add: ask_def bnd_def call_failed [OF assms] emit_def ret_def)

lemma ask_succeeded:
  assumes "net E (length (posts tr)) = Answers r" and "status_code r = 200"
    and "body_json r = Some res" and "first_text_part res = Some t"
  shows "ask E api_key prompt heading tr =
           (Inr t, tr @ [Post (gemini_request api_key prompt),
                         St_markdown heading, St_write t, Sleep 1])"
  by (simp add: ask_def bnd_def call_succeeded [OF assms] emit_def ret_def)

lemma ask_benign:
  assumes "benign (net E (length (posts tr)))"
  shows "\<exists>v evs. ask E api_key prompt heading tr =
                   (Inr v, tr @ Post (gemini_request api_key prompt) # evs)
           \<and> posts evs = [] \<and> St_write v \<in> set evs
           \<and> (failed (net E (length (posts tr))) \<longrightarrow> v = JNull)
           \<and> (\<not> failed (net E (length (posts tr))) \<longrightarrow>
                 succeeded (net E (length (posts tr))) = Some v)"
proof (cases "failed (net E (length (posts tr)))")
  case True
  then obtain r where "net E (length (posts tr)) = Answers r" and "status_code r \<noteq> 200"
    by (rule failedE)
  from ask_failed [OF this] True show ?thesis by simp
next
  case False
  with assms obtain t where t: "succeeded (net E (length (posts tr))) = Some t"
    by (auto simp: benign_def)
  then obtain r res where "net E (length (posts tr)) = Answers r" and "status_code r = 200"
    and "body_json r = Some res" and "first_text_part res = Some t"
    by (rule succeededE)
  from ask_succeeded [OF this] False t show ?thesis by simp
qed

lemma ask_posts:
  "posts (snd (ask E api_key prompt heading tr)) = posts tr @ [gemini_request api_key prompt]"
  by (simp add: ask_def call_gemini_api_def requests_post_def bnd_def emit_def ret_def lift_def
      split: outcome.splits sum.splits)

lemma ask_grows: "prefix tr (snd (ask E api_key prompt heading tr))"
  by (simp add: ask_def call_gemini_api_def requests_post_def bnd_def emit_def ret_def lift_def
      split: outcome.splits sum.splits)

subsection \<open>The five stages, when every call returns\<close>

lemma bnd_Inr: "m tr = (Inr a, tr') \<Longrightarrow> bnd m f tr = f a tr'"
  by (simp add: bnd_def)

lemma step_ask_benign:
  assumes "benign (net E (length (posts tr)))"
  shows "\<exists>v evs. bnd (progress_step s nm tot) (\<lambda>_. ask E api_key prompt heading) tr = (Inr v, tr @ evs)
           \<and> posts evs = [gemini_request api_key prompt] \<and> St_write v \<in> set evs
           \<and> (failed (net E (length (posts tr))) \<longrightarrow> v = JNull)
           \<and> (\<not> failed (net E (length (posts tr))) \<longrightarrow>
                 succeeded (net E (length (posts tr))) = Some v)"
proof -
  let ?tr = "tr @ [St_info (''Step '' @ str_nat s @ ''/'' @ str_nat tot @ '': '' @ nm)]"
  have n: "length (posts ?tr) = length (posts tr)" by simp
  from assms have "benign (net E (length (posts ?tr)))" by (simp only: n)
  from ask_benign [OF this, of api_key prompt heading]
  obtain v evs where a: "ask E api_key prompt heading ?tr = (Inr v, ?tr @ Post (gemini_request api_key prompt) # evs)"
    and b: "posts evs = []" "St_write v \<in> set evs"
      "failed (net E (length (posts tr))) \<longrightarrow> v = JNull"
      "\<not> failed (net E (length (posts tr))) \<longrightarrow> succeeded (net E (length (posts tr))) = Some v"
    unfolding n by blast
  have "bnd (progress_step s nm tot) (\<lambda>_. ask E api_key prompt heading) tr
        = (Inr v, tr @ (St_info (''Step '' @ str_nat s @ ''/'' @ str_nat tot @ '': '' @ nm)
                        # Post (gemini_request api_key prompt) # evs))"
    using a by (simp add: progress_step_def)
  with b show ?thesis by (intro exI conjI) (assumption | simp)+
qed

lemma stage_profile_benign:
  assumes "profile_prompt df = Inr p" and "benign (net E (length (posts tr)))"
  shows "\<exists>v evs. stage_profile E api_key df s tot tr = (Inr v, tr @ evs)
           \<and> posts evs = [gemini_request api_key p] \<and> St_write v \<in> set evs
           \<and> (failed (net E (length (posts tr))) \<longrightarrow> v = JNull)
           \<and> (\<not> failed (net E (length (posts tr))) \<longrightarrow>
                 succeeded (net E (length (posts tr))) = Some v)"
proof -
  let ?tr = "tr @ [St_info (''Step '' @ str_nat s @ ''/'' @ str_nat tot @ '': Profiling Data...''),
                   St_dataframe (head 10 df)]"
  have n: "length (posts ?tr) = length (posts tr)" by simp
  from assms(2) have "benign (net E (length (posts ?tr)))" by (simp only: n)
  from ask_benign [OF this, of api_key p "''**Profile Result:**''"]
  obtain v evs where a: "ask E api_key p ''**Profile Result:**'' ?tr = (Inr v, ?tr @ Post (gemini_request api_key p) # evs)"
    and b: "posts evs = []" "St_write v \<in> set evs"
      "failed (net E (length (posts tr))) \<longrightarrow> v = JNull"
      "\<not> failed (net E (length (posts tr))) \<longrightarrow> succeeded (net E (length (posts tr))) = Some v"
    unfolding n by blast
  have "stage_profile E api_key df s tot tr
        = (Inr v, tr @ (St_info (''Step '' @ str_nat s @ ''/'' @ str_nat tot @ '': Profiling Data...'')
                        # St_dataframe (head 10 df) # Post (gemini_request api_key p) # evs))"
    using a by (simp add: stage_profile_def progress_step_def assms(1))
  with b show ?thesis by (intro exI conjI) (assumption | simp)+
qed

lemma stages_benign:
  assumes p: "profile_prompt df = Inr p1"
    and ok: "\<forall>n<5. benign (net E (length (posts tr0) + n))"
  shows "\<exists>r1 r2 r3 r4 r5 tr.
           stages E api_key df tot tr0 = (Inr (r1, r2, r3, r4, r5), tr)
         \<and> posts tr = posts tr0 @ map (gemini_request api_key)
             [p1, cleaning_prompt E r1, metrics_prompt, analysis_prompt E r3, insights_prompt]
         \<and> (\<forall>n<5. failed (net E (length (posts tr0) + n)) \<longrightarrow> [r1, r2, r3, r4, r5] ! n = JNull)
         \<and> (\<forall>n<5. \<not> failed (net E (length (posts tr0) + n)) \<longrightarrow>
               succeeded (net E (length (posts tr0) + n)) = Some ([r1, r2, r3, r4, r5] ! n))
         \<and> (\<forall>n<5. St_write ([r1, r2, r3, r4, r5] ! n) \<in> set tr)"
proof -
  let ?n = "length (posts tr0)"
  have okn: "benign (net E (?n + k))" if "k < 5" for k
    using ok that by blast
  have b0: "benign (net E ?n)" using okn [of 0] by simp
  from stage_profile_benign [OF p b0, of api_key 1 tot]
  obtain r1 e1 where s1: "stage_profile E api_key df 1 tot tr0 = (Inr r1, tr0 @ e1)"
    and q1: "posts e1 = [gemini_request api_key p1]" and w1: "St_write r1 \<in> set e1"
    and f1: "failed (net E ?n) \<longrightarrow> r1 = JNull"
    and g1: "\<not> failed (net E ?n) \<longrightarrow> succeeded (net E ?n) = Some r1"
    by blast
  let ?t1 = "tr0 @ e1"
  have n1: "length (posts ?t1) = ?n + 1" using q1 by simp
  have b1: "benign (net E (length (posts ?t1)))" using okn [of 1] n1 by simp
  from step_ask_benign [OF b1, of 2 "''Data Cleaning...''" tot api_key "cleaning_prompt E r1" "''**Cleaning Steps:**''"]
  obtain r2 e2 where s2: "stage_cleaning E api_key r1 2 tot ?t1 = (Inr r2, ?t1 @ e2)"
    and q2: "posts e2 = [gemini_request api_key (cleaning_prompt E r1)]" and w2: "St_write r2 \<in> set e2"
    and f2: "failed (net E (?n + 1)) \<longrightarrow> r2 = JNull"
    and g2: "\<not> failed (net E (?n + 1)) \<longrightarrow> succeeded (net E (?n + 1)) = Some r2"
    unfolding stage_cleaning_def n1 by blast
  let ?t2 = "?t1 @ e2"
  have n2: "length (posts ?t2) = ?n + 2" using q1 q2 by simp
  have b2: "benign (net E (length (posts ?t2)))" using okn [of 2] n2 by simp
  from step_ask_benign [OF b2, of 3 "''Calculating Metrics and Engineering Features...''" tot api_key metrics_prompt "''**Key Metrics & Features:**''"]
  obtain r3 e3 where s3: "stage_metrics E api_key 3 tot ?t2 = (Inr r3, ?t2 @ e3)"
    and q3: "posts e3 = [gemini_request api_key metrics_prompt]" and w3: "St_write r3 \<in> set e3"
    and f3: "failed (net E (?n + 2)) \<longrightarrow> r3 = JNull"
    and g3: "\<not> failed (net E (?n + 2)) \<longrightarrow> succeeded (net E (?n + 2)) = Some r3"
    unfolding stage_metrics_def n2 by blast
  let ?t3 = "?t2 @ e3"
  have n3: "length (posts ?t3) = ?n + 3" using q1 q2 q3 by simp
  have b3: "benign (net E (length (posts ?t3)))" using okn [of 3] n3 by simp
  from step_ask_benign [OF b3, of 4 "''Finding Hidden Patterns & Analysis...''" tot api_key "analysis_prompt E r3" "''**Hidden Patterns:**''"]
  obtain r4 e4 where s4: "stage_analysis E api_key r3 4 tot ?t3 = (Inr r4, ?t3 @ e4)"
    and q4: "posts e4 = [gemini_request api_key (analysis_prompt E r3)]" and w4: "St_write r4 \<in> set e4"
    and f4: "failed (net E (?n + 3)) \<longrightarrow> r4 = JNull"
    and g4: "\<not> failed (net E (?n + 3)) \<longrightarrow> succeeded (net E (?n + 3)) = Some r4"
    unfolding stage_analysis_def n3 by blast
  let ?t4 = "?t3 @ e4"
  have n4: "length (posts ?t4) = ?n + 4" using q1 q2 q3 q4 by simp
  have b4: "benign (net E (length (posts ?t4)))" using okn [of 4] n4 by simp
  from step_ask_benign [OF b4, of 5 "''Generating Insights & Recommendations...''" tot api_key insights_prompt "''**Actionable Insights:**''"]
  obtain r5 e5 where s5: "stage_insights E api_key 5 tot ?t4 = (Inr r5, ?t4 @ e5)"
    and q5: "posts e5 = [gemini_request api_key insights_prompt]" and w5: "St_write r5 \<in> set e5"
    and f5: "failed (net E (?n + 4)) \<longrightarrow> r5 = JNull"
    and g5: "\<not> failed (net E (?n + 4)) \<longrightarrow> succeeded (net E (?n + 4)) = Some r5"
    unfolding stage_insights_def n4 by blast
  let ?t5 = "?t4 @ e5"
  have run: "stages E api_key df tot tr0 = (Inr (r1, r2, r3, r4, r5), ?t5)"
    unfolding stages_def
    by (simp only: bnd_Inr [where m = "stage_profile E api_key df 1 tot", OF s1]
        bnd_Inr [where m = "stage_cleaning E api_key r1 2 tot", OF s2]
        bnd_Inr [where m = "stage_metrics E api_key 3 tot", OF s3]
        bnd_Inr [where m = "stage_analysis E api_key r3 4 tot", OF s4]
        bnd_Inr [where m = "stage_insights E api_key 5 tot", OF s5] ret_def)
  have ps: "posts ?t5 = posts tr0 @ map (gemini_request api_key)
             [p1, cleaning_prompt E r1, metrics_prompt, analysis_prompt E r3, insights_prompt]"
    using q1 q2 q3 q4 q5 by simp
  have all5: "P 0 \<Longrightarrow> P 1 \<Longrightarrow> P 2 \<Longrightarrow> P 3 \<Longrightarrow> P 4 \<Longrightarrow> \<forall>n<5. P n" for P :: "nat \<Rightarrow> bool"
  proof (intro allI impI)
    fix n :: nat assume "P 0" "P 1" "P 2" "P 3" "P 4" "n < 5"
    then consider "n = 0" | "n = 1" | "n = 2" | "n = 3" | "n = 4" by linarith
    then show "P n" using \<open>P 0\<close> \<open>P 1\<close> \<open>P 2\<close> \<open>P 3\<close> \<open>P 4\<close> by cases simp_all
  qed
  have fs: "\<forall>n<5. failed (net E (?n + n)) \<longrightarrow> [r1, r2, r3, r4, r5] ! n = JNull"
    using f1 f2 f3 f4 f5 by (intro all5) simp_all
  have gs: "\<forall>n<5. \<not> failed (net E (?n + n)) \<longrightarrow> succeeded (net E (?n + n)) = Some ([r1, r2, r3, r4, r5] ! n)"
    using g1 g2 g3 g4 g5 by (intro all5) simp_all
  have ws: "\<forall>n<5. St_write ([r1, r2, r3, r4, r5] ! n) \<in> set ?t5"
    using w1 w2 w3 w4 w5 by (intro all5) simp_all
  from run ps fs gs ws show ?thesis by blast
qed

section \<open>The Remote Text Generator: claims\<close>

text \<open>
  Claim C4. When the response has status 200 and its body holds a first candidate with a
  first text part, \<open>call_gemini_api\<close> returns exactly that part, shows no error, and the
  stage writes that value to the screen under its heading.
\<close>

theorem success_returns_first_text_part:
  assumes "net E (length (posts tr)) = Answers r" and "status_code r = 200"
    and "body_json r = Some res" and "first_text_part res = Some t"
  shows "call_gemini_api E api_key prompt tr = (Inr t, tr @ [Post (gemini_request api_key prompt)])
       \<and> ask E api_key prompt heading tr =
           (Inr t, tr @ [Post (gemini_request api_key prompt), St_markdown heading, St_write t, Sleep 1])"
  using call_succeeded [OF assms] ask_succeeded [OF assms] by simp

theorem success_returns_first_text_part_witness:
  "net (env_of [Answers (ok_response ''hello'')]) (length (posts [])) = Answers (ok_response ''hello'')
   \<and> status_code (ok_response ''hello'') = 200
   \<and> body_json (ok_response ''hello'') = Some (body_with_text (JStr ''hello''))
   \<and> first_text_part (body_with_text (JStr ''hello'')) = Some (JStr ''hello'')
   \<and> call_gemini_api (env_of [Answers (ok_response ''hello'')]) ''key'' ''prompt'' [] =
        (Inr (JStr ''hello''), [] @ [Post (gemini_request ''key'' ''prompt'')])
   \<and> ask (env_of [Answers (ok_response ''hello'')]) ''key'' ''prompt'' ''**Profile Result:**'' [] =
        (Inr (JStr ''hello''),
         [] @ [Post (gemini_request ''key'' ''prompt''), St_markdown ''**Profile Result:**'',
               St_write (JStr ''hello''), Sleep 1])"
proof -
  have h1: "net (env_of [Answers (ok_response ''hello'')]) (length (posts [])) = Answers (ok_response ''hello'')"
    by (simp add: env_of_def replies_def)
  have h2: "status_code (ok_response ''hello'') = 200"
    by (simp add: ok_response_def)
  have h3: "body_json (ok_response ''hello'') = Some (body_with_text (JStr ''hello''))"
    by (simp add: ok_response_def)
  have h4: "first_text_part (body_with_text (JStr ''hello'')) = Some (JStr ''hello'')"
    by (simp add: first_text_part_def body_with_text_def)
  show ?thesis
    using h1 h2 h3 h4
      success_returns_first_text_part [OF h1 h2 h3 h4, of "''key''" "''prompt''" "''**Profile Result:**''"]
    by simp
qed

text \<open>
  Claim C5, as the specification puts it: the call returns a str if and only if the
  status was 200. A 200 response whose body is the empty object refutes it: the
  subscript \<^verbatim>\<open>res["candidates"]\<close> raises KeyError and nothing is returned.
\<close>

theorem string_iff_200_counterexample:
  "status_code empty_object_response = 200
   \<and> call_gemini_api (env_of [Answers empty_object_response]) ''key'' ''prompt'' [] =
       (Inl KeyError, [Post (gemini_request ''key'' ''prompt'')])"
  by (simp add: empty_object_response_def env_of_def replies_def call_gemini_api_def
      requests_post_def bnd_def lift_def response_json_def extract_text_def)

text \<open>
  Claim C5, amended. On a status other than 200 the call shows the error message made
  of \<^verbatim>\<open>Gemini API Error: \<close> and the raw response body, and returns \<^verbatim>\<open>None\<close>. It
  returns a str \<open>s\<close> if and only if the status was 200 and the first candidate's first
  text part of the body is the str \<open>s\<close>.
\<close>

theorem failure_shows_body_and_returns_none:
  "(net E (length (posts tr)) = Answers r \<and> status_code r \<noteq> 200 \<longrightarrow>
      call_gemini_api E api_key prompt tr =
        (Inr JNull, tr @ [Post (gemini_request api_key prompt),
                          St_error (''Gemini API Error: '' @ response_text r)]))
   \<and> (fst (call_gemini_api E api_key prompt tr) = Inr (JStr s) \<longleftrightarrow>
        (\<exists>r res. net E (length (posts tr)) = Answers r \<and> status_code r = 200
           \<and> body_json r = Some res \<and> first_text_part res = Some (JStr s)))"
proof (intro conjI impI)
  assume "net E (length (posts tr)) = Answers r \<and> status_code r \<noteq> 200"
  then show "call_gemini_api E api_key prompt tr =
        (Inr JNull, tr @ [Post (gemini_request api_key prompt),
                          St_error (''Gemini API Error: '' @ response_text r)])"
    by (simp add: call_failed)
next
  show "fst (call_gemini_api E api_key prompt tr) = Inr (JStr s) \<longleftrightarrow>
        (\<exists>r res. net E (length (posts tr)) = Answers r \<and> status_code r = 200
           \<and> body_json r = Some res \<and> first_text_part res = Some (JStr s))"
    by (auto simp: call_gemini_api_def requests_post_def bnd_def emit_def ret_def lift_def
        response_json_def extract_text_iff split: outcome.splits option.splits)
qed

theorem failure_shows_body_and_returns_none_witness:
  "(net (env_of [Answers error_response]) (length (posts [])) = Answers error_response
      \<and> status_code error_response \<noteq> 200)
   \<and> call_gemini_api (env_of [Answers error_response]) ''key'' ''prompt'' [] =
        (Inr JNull, [Post (gemini_request ''key'' ''prompt''),
                     St_error ''Gemini API Error: API key not valid''])
   \<and> fst (call_gemini_api (env_of [Answers (ok_response ''hello'')]) ''key'' ''prompt'' []) = Inr (JStr ''hello'')
   \<and> net (env_of [Answers (ok_response ''hello'')]) (length (posts [])) = Answers (ok_response ''hello'')
   \<and> status_code (ok_response ''hello'') = 200
   \<and> first_text_part (body_with_text (JStr ''hello'')) = Some (JStr ''hello'')"
proof -
  have h: "net (env_of [Answers error_response]) (length (posts [])) = Answers error_response
      \<and> status_code error_response \<noteq> 200"
    by (simp add: env_of_def replies_def error_response_def)
  have k: "net (env_of [Answers (ok_response ''hello'')]) (length (posts [])) = Answers (ok_response ''hello'')
      \<and> status_code (ok_response ''hello'') = 200
      \<and> body_json (ok_response ''hello'') = Some (body_with_text (JStr ''hello''))
      \<and> first_text_part (body_with_text (JStr ''hello'')) = Some (JStr ''hello'')"
    by (simp add: env_of_def replies_def ok_response_def first_text_part_def body_with_text_def)
  from failure_shows_body_and_returns_none
         [of "env_of [Answers error_response]" "[]" error_response "''key''" "''prompt''" "''x''"] h
  have a: "call_gemini_api (env_of [Answers error_response]) ''key'' ''prompt'' [] =
        (Inr JNull, [Post (gemini_request ''key'' ''prompt''),
                     St_error ''Gemini API Error: API key not valid''])"
    by (simp add: error_response_def)
  from failure_shows_body_and_returns_none
         [of "env_of [Answers (ok_response ''hello'')]" "[]" r "''key''" "''prompt''" "''hello''"] k
  have b: "fst (call_gemini_api (env_of [Answers (ok_response ''hello'')]) ''key'' ''prompt'' []) = Inr (JStr ''hello'')"
    by blast
  from h k a b show ?thesis by simp
qed

subsection \<open>Facts about the concrete inputs\<close>

lemma all_less_5: "(\<forall>n<5. P n) \<longleftrightarrow> P 0 \<and> P 1 \<and> P 2 \<and> P 3 \<and> P (4::nat)"
proof -
  have "n < 5 \<longleftrightarrow> n = 0 \<or> n = 1 \<or> n = 2 \<or> n = 3 \<or> n = 4" for n :: nat
    by auto
  then show ?thesis by auto
qed

lemma profile_prompt_ab: "profile_prompt df_ab = Inr prompt_ab"
  by code_simp

lemma benign_ok [simp]: "benign (Answers (ok_response s))"
  by (simp add: benign_def failed_def succeeded_def ok_response_def first_text_part_def body_with_text_def)

lemma benign_error [simp]: "benign (Answers error_response)"
  by (simp add: benign_def failed_def error_response_def)

lemma failed_simps [simp]:
  "failed (Answers error_response)" "\<not> failed (Answers (ok_response s))"
  by (simp_all add: failed_def error_response_def ok_response_def)

lemma net_env_of [simp]: "net (env_of ocs) n = replies ocs n"
  by (simp add: env_of_def)

lemma mixed_benign: "\<forall>n<5. benign (net (env_of mixed_replies) (length (posts []) + n))"
  by (simp add: all_less_5 replies_def mixed_replies_def)

section \<open>The Prompt Pipeline: claims\<close>

text \<open>
  Claim C3. A call that fails with a status other than 200 does not stop the five
  stages: whenever the first prompt can be built and each of the five calls either
  fails in that way or succeeds with a text part, in any combination, \<open>stages\<close>
  returns, the five requests are posted in order with the prompts of stages 1 to 5,
  and the result of every stage whose call failed is \<^verbatim>\<open>None\<close>.
\<close>

theorem stages_continue_after_failures:
  assumes "profile_prompt df = Inr p1"
    and "\<forall>n<5. benign (net E (length (posts tr0) + n))"
  shows "\<exists>r1 r2 r3 r4 r5 tr.
           stages E api_key df tot tr0 = (Inr (r1, r2, r3, r4, r5), tr)
         \<and> posts tr = posts tr0 @ map (gemini_request api_key)
             [p1, cleaning_prompt E r1, metrics_prompt, analysis_prompt E r3, insights_prompt]
         \<and> (\<forall>n<5. failed (net E (length (posts tr0) + n)) \<longrightarrow> [r1, r2, r3, r4, r5] ! n = JNull)"
  using stages_benign [OF assms, of api_key tot] by blast

theorem stages_continue_after_failures_witness:
  "profile_prompt df_ab = Inr prompt_ab
   \<and> benign (net (env_of mixed_replies) 0) \<and> benign (net (env_of mixed_replies) 1) \<and> benign (net (env_of mixed_replies) 2)
   \<and> benign (net (env_of mixed_replies) 3) \<and> benign (net (env_of mixed_replies) 4)
   \<and> failed (net (env_of mixed_replies) 0)
   \<and> (\<exists>r1 r2 r3 r4 r5 tr.
           stages (env_of mixed_replies) ''key'' df_ab 6 [] = (Inr (r1, r2, r3, r4, r5), tr)
         \<and> posts tr = posts [] @ map (gemini_request ''key'')
             [prompt_ab, cleaning_prompt (env_of mixed_replies) r1, metrics_prompt,
              analysis_prompt (env_of mixed_replies) r3, insights_prompt]
         \<and> (\<forall>n<5. failed (net (env_of mixed_replies) (length (posts []) + n)) \<longrightarrow>
               [r1, r2, r3, r4, r5] ! n = JNull))"
proof -
  have f: "failed (net (env_of mixed_replies) 0)"
    by (simp add: replies_def mixed_replies_def)
  have b: "benign (net (env_of mixed_replies) 0) \<and> benign (net (env_of mixed_replies) 1) \<and> benign (net (env_of mixed_replies) 2)
    \<and> benign (net (env_of mixed_replies) 3) \<and> benign (net (env_of mixed_replies) 4)"
    by (simp add: replies_def mixed_replies_def)
  from profile_prompt_ab b f
    stages_continue_after_failures [OF profile_prompt_ab mixed_benign, of "''key''" 6]
  show ?thesis by blast
qed

lemma sublist_mid: "sublist x (a @ x @ b)"
  unfolding sublist_def by blast

lemma cleaning_prompt_sublist: "sublist (py_str E r) (cleaning_prompt E r)"
  unfolding cleaning_prompt_def by (rule sublist_mid)

lemma analysis_prompt_sublist: "sublist (py_str E r) (analysis_prompt E r)"
  unfolding analysis_prompt_def by (rule sublist_mid)

text \<open>
  Claim C2 says that for every stage from 2 to 5 the prompt contains the result of the
  stage before. Stages 2 and 4 do so (the two lemmas above). The prompts of stages 3
  and 5 speak of \<^verbatim>\<open>the cleaned data and profile\<close> and of \<^verbatim>\<open>the previous analysis\<close>,
  but they are f-strings without a field, and each request carries its prompt only: in
  the run below every call succeeds, and the prompt posted by stage 3 does not contain
  the result of stage 2, nor the prompt posted by stage 5 the result of stage 4.
\<close>

theorem metrics_and_insights_prompts_omit_previous_result:
  "fst (stages (env_of ok_replies) ''key'' df_ab 6 []) =
     Inr (JStr ''<profile>'', JStr ''<cleaning>'', JStr ''<metrics>'', JStr ''<patterns>'',
          JStr ''<insights>'')
   \<and> posts (snd (stages (env_of ok_replies) ''key'' df_ab 6 [])) ! 2 = gemini_request ''key'' metrics_prompt
   \<and> \<not> sublist ''<cleaning>'' metrics_prompt
   \<and> posts (snd (stages (env_of ok_replies) ''key'' df_ab 6 [])) ! 4 = gemini_request ''key'' insights_prompt
   \<and> \<not> sublist ''<patterns>'' insights_prompt"
  by code_simp

subsection \<open>The requests posted, whatever the later calls do\<close>

lemma prefix_bnd:
  assumes "\<And>a tr'. prefix tr' (snd (f a tr'))"
  shows "prefix (snd (m tr)) (snd (bnd m f tr))"
proof (cases "m tr")
  case (Pair x tr')
  then show ?thesis using assms by (cases x) (simp_all add: bnd_def)
qed

lemma grows_bnd:
  assumes "\<And>tr'. prefix tr' (snd (m tr'))" and "\<And>a tr'. prefix tr' (snd (f a tr'))"
  shows "prefix tr (snd (bnd m f tr))"
  using assms(1) [of tr] prefix_bnd [of f m tr, OF assms(2)] by (rule prefix_order.trans)

lemma grows_ret: "prefix tr (snd (ret a tr))"
  by (simp add: ret_def)

lemma grows_step_ask: "prefix tr (snd (bnd (progress_step s nm tot) (\<lambda>_. ask E api_key prompt heading) tr))"
proof -
  have "prefix tr (tr @ [St_info (''Step '' @ str_nat s @ ''/'' @ str_nat tot @ '': '' @ nm)])"
    by simp
  also have "prefix \<dots> (snd (ask E api_key prompt heading \<dots>))"
    by (rule ask_grows)
  finally show ?thesis by (simp add: progress_step_def)
qed

lemma posts_step_ask:
  "posts (snd (bnd (progress_step s nm tot) (\<lambda>_. ask E api_key prompt heading) tr))
     = posts tr @ [gemini_request api_key prompt]"
  by (simp add: progress_step_def ask_posts)

lemma prefix_posts: "prefix a b \<Longrightarrow> prefix (posts a) (posts b)"
  by (auto simp: prefix_def)

lemma cleaning_prompt_None:
  "cleaning_prompt E JNull = ''Given this data profile:\<newline>None\<newline>Suggest cleaning steps and apply them. Return python code for cleaning and a summary of changes.''"
  by (simp add: cleaning_prompt_def py_str_def)

lemma analysis_prompt_None:
  "analysis_prompt E JNull = ''Given the data and metrics:\<newline>None\<newline>Perform exploratory data analysis and highlight hidden patterns, outliers, or unusual trends.''"
  by (simp add: analysis_prompt_def py_str_def)

lemma failed_benign: "failed oc \<Longrightarrow> benign oc"
  by (simp add: benign_def)

lemma stages_after_failed_profile:
  assumes p: "profile_prompt df = Inr p1" and f: "failed (net E (length (posts tr0)))"
  shows "prefix (posts tr0 @ [gemini_request api_key p1, gemini_request api_key (cleaning_prompt E JNull)])
           (posts (snd (stages E api_key df tot tr0)))"
proof -
  from stage_profile_benign [OF p failed_benign [OF f], of api_key 1 tot] f
  obtain e1 where s1: "stage_profile E api_key df 1 tot tr0 = (Inr JNull, tr0 @ e1)"
    and q1: "posts e1 = [gemini_request api_key p1]"
    by blast
  let ?rest = "\<lambda>cleaning_result.
     bnd (stage_metrics E api_key 3 tot) (\<lambda>metrics_result.
     bnd (stage_analysis E api_key metrics_result 4 tot) (\<lambda>analysis_result.
     bnd (stage_insights E api_key 5 tot) (\<lambda>insights_result.
     ret (JNull, cleaning_result, metrics_result, analysis_result, insights_result))))"
  have run: "stages E api_key df tot tr0 = bnd (stage_cleaning E api_key JNull 2 tot) ?rest (tr0 @ e1)"
    unfolding stages_def
    by (simp only: bnd_Inr [where m = "stage_profile E api_key df 1 tot", OF s1])
  have g: "prefix tr' (snd (?rest a tr'))" for a tr'
    unfolding stage_metrics_def stage_analysis_def stage_insights_def
    by (intro grows_bnd grows_step_ask grows_ret)
  have "prefix (snd (stage_cleaning E api_key JNull 2 tot (tr0 @ e1))) (snd (stages E api_key df tot tr0))"
    unfolding run by (rule prefix_bnd) (rule g)
  from prefix_posts [OF this] show ?thesis
    using q1 by (simp add: stage_cleaning_def posts_step_ask)
qed

lemma stages_after_failed_metrics:
  assumes p: "profile_prompt df = Inr p1"
    and b0: "benign (net E (length (posts tr0)))"
    and b1: "benign (net E (length (posts tr0) + 1))"
    and f: "failed (net E (length (posts tr0) + 2))"
  shows "\<exists>r1. prefix (posts tr0 @ [gemini_request api_key p1, gemini_request api_key (cleaning_prompt E r1),
                  gemini_request api_key metrics_prompt, gemini_request api_key (analysis_prompt E JNull)])
           (posts (snd (stages E api_key df tot tr0)))"
proof -
  let ?n = "length (posts tr0)"
  from stage_profile_benign [OF p b0, of api_key 1 tot]
  obtain r1 e1 where s1: "stage_profile E api_key df 1 tot tr0 = (Inr r1, tr0 @ e1)"
    and q1: "posts e1 = [gemini_request api_key p1]"
    by blast
  let ?t1 = "tr0 @ e1"
  have n1: "length (posts ?t1) = ?n + 1" using q1 by simp
  have "benign (net E (length (posts ?t1)))" using b1 n1 by simp
  from step_ask_benign [OF this, of 2 "''Data Cleaning...''" tot api_key "cleaning_prompt E r1" "''**Cleaning Steps:**''"]
  obtain r2 e2 where s2: "stage_cleaning E api_key r1 2 tot ?t1 = (Inr r2, ?t1 @ e2)"
    and q2: "posts e2 = [gemini_request api_key (cleaning_prompt E r1)]"
    unfolding stage_cleaning_def by blast
  let ?t2 = "?t1 @ e2"
  have n2: "length (posts ?t2) = ?n + 2" using q1 q2 by simp
  have f2: "failed (net E (length (posts ?t2)))" using f n2 by simp
  from step_ask_benign [OF failed_benign [OF f2], of 3 "''Calculating Metrics and Engineering Features...''" tot api_key metrics_prompt "''**Key Metrics & Features:**''"] f2
  obtain e3 where s3: "stage_metrics E api_key 3 tot ?t2 = (Inr JNull, ?t2 @ e3)"
    and q3: "posts e3 = [gemini_request api_key metrics_prompt]"
    unfolding stage_metrics_def by blast
  let ?rest = "\<lambda>analysis_result.
     bnd (stage_insights E api_key 5 tot) (\<lambda>insights_result.
     ret (r1, r2, JNull, analysis_result, insights_result))"
  have run: "stages E api_key df tot tr0 = bnd (stage_analysis E api_key JNull 4 tot) ?rest (?t2 @ e3)"
    unfolding stages_def
    by (simp only: bnd_Inr [where m = "stage_profile E api_key df 1 tot", OF s1]
        bnd_Inr [where m = "stage_cleaning E api_key r1 2 tot", OF s2]
        bnd_Inr [where m = "stage_metrics E api_key 3 tot", OF s3])
  have g: "prefix tr' (snd (?rest a tr'))" for a tr'
    unfolding stage_insights_def
    by (intro grows_bnd grows_step_ask grows_ret)
  have "prefix (snd (stage_analysis E api_key JNull 4 tot (?t2 @ e3))) (snd (stages E api_key df tot tr0))"
    unfolding run by (rule prefix_bnd) (rule g)
  from prefix_posts [OF this] have "prefix (posts tr0 @ [gemini_request api_key p1, gemini_request api_key (cleaning_prompt E r1),
                  gemini_request api_key metrics_prompt, gemini_request api_key (analysis_prompt E JNull)])
           (posts (snd (stages E api_key df tot tr0)))"
    using q1 q2 q3 by (simp add: stage_analysis_def posts_step_ask)
  then show ?thesis ..
qed

text \<open>
  Claim C10. When the call of stage 1 fails with a status other than 200, the prompt
  posted by stage 2 holds the four characters \<^verbatim>\<open>None\<close> where the profile would be,
  not an empty text; when stages 1 and 2 return and the call of stage 3 fails, the
  prompt posted by stage 4 holds \<^verbatim>\<open>None\<close> where the metrics would be. Both hold
  whatever the later calls do.
\<close>

theorem none_text_embedded_after_failure:
  assumes "profile_prompt df = Inr p1"
  shows "(failed (net E (length (posts tr0))) \<longrightarrow>
            prefix (posts tr0 @ [gemini_request api_key p1,
                      gemini_request api_key ''Given this data profile:\<newline>None\<newline>Suggest cleaning steps and apply them. Return python code for cleaning and a summary of changes.''])
              (posts (snd (stages E api_key df tot tr0))))
       \<and> (benign (net E (length (posts tr0))) \<and> benign (net E (length (posts tr0) + 1))
            \<and> failed (net E (length (posts tr0) + 2)) \<longrightarrow>
            (\<exists>r1. prefix (posts tr0 @ [gemini_request api_key p1,
                      gemini_request api_key (cleaning_prompt E r1),
                      gemini_request api_key metrics_prompt,
                      gemini_request api_key ''Given the data and metrics:\<newline>None\<newline>Perform exploratory data analysis and highlight hidden patterns, outliers, or unusual trends.''])
              (posts (snd (stages E api_key df tot tr0)))))"
  using stages_after_failed_profile [OF assms, of E tr0 api_key tot]
    stages_after_failed_metrics [OF assms, of E tr0 api_key tot]
  unfolding cleaning_prompt_None analysis_prompt_None by blast

theorem none_text_embedded_after_failure_witness:
  "profile_prompt df_ab = Inr prompt_ab
   \<and> failed (net (env_of mixed_replies) (length (posts [])))
   \<and> benign (net (env_of mixed_replies) (length (posts [])))
   \<and> benign (net (env_of mixed_replies) (length (posts []) + 1))
   \<and> failed (net (env_of mixed_replies) (length (posts []) + 2))
   \<and> prefix (posts [] @ [gemini_request ''key'' prompt_ab,
                gemini_request ''key'' ''Given this data profile:\<newline>None\<newline>Suggest cleaning steps and apply them. Return python code for cleaning and a summary of changes.''])
        (posts (snd (stages (env_of mixed_replies) ''key'' df_ab 6 [])))
   \<and> (\<exists>r1. prefix (posts [] @ [gemini_request ''key'' prompt_ab,
                gemini_request ''key'' (cleaning_prompt (env_of mixed_replies) r1),
                gemini_request ''key'' metrics_prompt,
                gemini_request ''key'' ''Given the data and metrics:\<newline>None\<newline>Perform exploratory data analysis and highlight hidden patterns, outliers, or unusual trends.''])
        (posts (snd (stages (env_of mixed_replies) ''key'' df_ab 6 []))))"
proof -
  have h: "failed (net (env_of mixed_replies) (length (posts [])))"
    "benign (net (env_of mixed_replies) (length (posts [])))"
    "benign (net (env_of mixed_replies) (length (posts []) + 1))"
    "failed (net (env_of mixed_replies) (length (posts []) + 2))"
    by (simp_all add: replies_def mixed_replies_def)
  from h profile_prompt_ab
    none_text_embedded_after_failure [OF profile_prompt_ab, of "env_of mixed_replies" "[]" "''key''" 6]
  show ?thesis by blast
qed

section \<open>The Report Assembler: claims\<close>

lemma full_report_strs:
  "full_report (JStr p) (JStr c) (JStr m) (JStr a) (JStr i) =
     Inr (''DATA PROFILE:\<newline>'' @ p @ ''\<newline>\<newline>''
          @ ''DATA CLEANING STEPS:\<newline>'' @ c @ ''\<newline>\<newline>''
          @ ''KEY METRICS & FEATURES:\<newline>'' @ m @ ''\<newline>\<newline>''
          @ ''HIDDEN PATTERNS & ANALYSIS:\<newline>'' @ a @ ''\<newline>\<newline>''
          @ ''ACTIONABLE INSIGHTS & RECOMMENDATIONS:\<newline>'' @ i @ ''\<newline>\<newline>'')"
  by (simp add: full_report_def)

lemma str_add_Inr: "str_add s v = Inr r \<longleftrightarrow> (\<exists>t. v = JStr t \<and> r = s @ t)"
  by (cases v) auto

lemma full_report_returns_iff:
  "(\<exists>r. full_report p c m a i = Inr r) \<longleftrightarrow>
     (\<exists>ps cs ms as is. p = JStr ps \<and> c = JStr cs \<and> m = JStr ms \<and> a = JStr as \<and> i = JStr is)"
proof
  assume "\<exists>r. full_report p c m a i = Inr r"
  then obtain r where "full_report p c m a i = Inr r" ..
  then show "\<exists>ps cs ms as is. p = JStr ps \<and> c = JStr cs \<and> m = JStr ms \<and> a = JStr as \<and> i = JStr is"
    unfolding full_report_def bind_exn_Inr str_add_Inr by (elim exE conjE) simp
next
  assume "\<exists>ps cs ms as is. p = JStr ps \<and> c = JStr cs \<and> m = JStr ms \<and> a = JStr as \<and> i = JStr is"
  then show "\<exists>r. full_report p c m a i = Inr r"
    by (auto simp: full_report_strs)
qed

text \<open>
  Claim C1 says the report is assembled for every combination of stage failures. The
  script returns \<^verbatim>\<open>None\<close> from a failed call in order to go on, and the prompts accept
  it, but the chain of \<^verbatim>\<open>+\<close> does not: with the first call refused and the other four
  answered, all five requests are posted, and the run ends in a TypeError right after
  announcing step 6, before any report is shown or offered for download.
\<close>

theorem report_assembly_raises_after_failed_stage:
  "(case run (env_of first_fails) ''key'' (Some upload_ab) True of
      (res, tr) \<Rightarrow>
        res = Inl TypeError \<and> length (posts tr) = 5
        \<and> last tr = St_info ''Step 6/6: Generating PDF Report...'')
   \<and> full_report JNull (JStr ''<cleaning>'') (JStr ''<metrics>'') (JStr ''<patterns>'')
        (JStr ''<insights>'') = Inl TypeError"
proof
  show "case run (env_of first_fails) ''key'' (Some upload_ab) True of
      (res, tr) \<Rightarrow>
        res = Inl TypeError \<and> length (posts tr) = 5
        \<and> last tr = St_info ''Step 6/6: Generating PDF Report...''"
    by code_simp
  show "full_report JNull (JStr ''<cleaning>'') (JStr ''<metrics>'') (JStr ''<patterns>'')
        (JStr ''<insights>'') = Inl TypeError"
    by (simp add: full_report_def)
qed

section \<open>The table and the input condition: claims\<close>

lemma posts_stage_profile:
  assumes "profile_prompt df = Inr p"
  shows "posts (snd (stage_profile E api_key df s tot tr)) = posts tr @ [gemini_request api_key p]"
  by (simp add: stage_profile_def progress_step_def assms ask_posts)

lemma head_cong:
  assumes "columns d = columns d'" and "take n (rows d) = take n (rows d')"
  shows "head n d = head n d'"
  using assms by (cases d, cases d') (simp add: head_def)

lemma profile_prompt_cong:
  assumes "columns d = columns d'" and "take 2 (rows d) = take 2 (rows d')"
  shows "profile_prompt d = profile_prompt d'"
  using head_cong [OF assms] assms(1) by (simp add: profile_prompt_def join_columns_def)

text \<open>
  Claim C7. For the table with columns \<^verbatim>\<open>a\<close>, \<^verbatim>\<open>b\<close> and rows \<^verbatim>\<open>[1,2]\<close>, \<^verbatim>\<open>[3,4]\<close>
  the prompt of stage 1 contains the header \<^verbatim>\<open>a,b\<close> and the two CSV lines \<^verbatim>\<open>1,2\<close>
  and \<^verbatim>\<open>3,4\<close>, written from the first two rows (rows after the second change
  nothing) and the column names; this prompt is what stage 1 posts.
\<close>

theorem profile_prompt_of_two_column_table:
  "profile_prompt df_ab = Inr prompt_ab
   \<and> to_csv (head 2 df_ab) = ''a,b\<newline>1,2\<newline>3,4\<newline>''
   \<and> sublist ''a,b'' prompt_ab
   \<and> sublist ''1,2\<newline>3,4\<newline>'' prompt_ab
   \<and> sublist ''Column names: a, b'' prompt_ab
   \<and> profile_prompt (df_ab\<lparr>rows := rows df_ab @ extra\<rparr>) = Inr prompt_ab
   \<and> posts (snd (stage_profile E api_key df_ab s tot tr)) = posts tr @ [gemini_request api_key prompt_ab]"
proof (intro conjI)
  show "profile_prompt df_ab = Inr prompt_ab" by (rule profile_prompt_ab)
  show "to_csv (head 2 df_ab) = ''a,b\<newline>1,2\<newline>3,4\<newline>''" by code_simp
  show "sublist ''a,b'' prompt_ab" by code_simp
  show "sublist ''1,2\<newline>3,4\<newline>'' prompt_ab" by code_simp
  show "sublist ''Column names: a, b'' prompt_ab" by code_simp
  have "profile_prompt (df_ab\<lparr>rows := rows df_ab @ extra\<rparr>) = profile_prompt df_ab"
    by (rule profile_prompt_cong) (simp_all add: df_ab_def)
  then show "profile_prompt (df_ab\<lparr>rows := rows df_ab @ extra\<rparr>) = Inr prompt_ab"
    by (simp add: profile_prompt_ab)
  show "posts (snd (stage_profile E api_key df_ab s tot tr)) = posts tr @ [gemini_request api_key prompt_ab]"
    by (rule posts_stage_profile [OF profile_prompt_ab])
qed


text \<open>
  Claim C6. With an empty credential or without an upload the run shows the warning,
  posts nothing and announces no step. Without the button pressed it only confirms the
  inputs. A request is posted, or a step announced, only with a credential, an upload
  and the button; then the script goes on with reading the upload and the pipeline.
\<close>

theorem pipeline_needs_key_file_and_button:
  "(api_key = [] \<or> uploaded_file = None \<longrightarrow>
      run E api_key uploaded_file button =
        (Inr (), [St_title, St_intro, St_warning ''Please enter your Gemini API key and upload a dataset to proceed.'', St_rule, St_caption]))
   \<and> (api_key \<noteq> [] \<and> uploaded_file \<noteq> None \<and> \<not> button \<longrightarrow>
      run E api_key uploaded_file button =
        (Inr (), [St_title, St_intro, St_success ''API key and data file received!'', St_rule, St_caption]))
   \<and> (posts (snd (run E api_key uploaded_file button)) \<noteq> [] \<longrightarrow>
        api_key \<noteq> [] \<and> uploaded_file \<noteq> None \<and> button)
   \<and> ((\<exists>s. St_info s \<in> set (snd (run E api_key uploaded_file button))) \<longrightarrow>
        api_key \<noteq> [] \<and> uploaded_file \<noteq> None \<and> button)
   \<and> (api_key \<noteq> [] \<and> uploaded_file = Some f \<and> button \<longrightarrow>
        run E api_key uploaded_file button =
          bnd (generate_report E api_key f) (\<lambda>_. bnd (emit St_rule) (\<lambda>_. emit St_caption))
            [St_title, St_intro, St_success ''API key and data file received!''])"
proof -
  have a: "run E api_key uploaded_file button =
        (Inr (), [St_title, St_intro, St_warning ''Please enter your Gemini API key and upload a dataset to proceed.'', St_rule, St_caption])"
    if "api_key = [] \<or> uploaded_file = None"
    using that by (auto simp: run_def script_def emit_def)
  have b: "run E api_key uploaded_file button =
        (Inr (), [St_title, St_intro, St_success ''API key and data file received!'', St_rule, St_caption])"
    if "api_key \<noteq> [] \<and> uploaded_file \<noteq> None \<and> \<not> button"
    using that by (auto simp: run_def script_def bnd_def emit_def ret_def)
  have c: "run E api_key uploaded_file button =
          bnd (generate_report E api_key f) (\<lambda>_. bnd (emit St_rule) (\<lambda>_. emit St_caption))
            [St_title, St_intro, St_success ''API key and data file received!'']"
    if "api_key \<noteq> [] \<and> uploaded_file = Some f \<and> button"
    using that by (simp add: run_def script_def bnd_def emit_def)
  have d: "api_key \<noteq> [] \<and> uploaded_file \<noteq> None \<and> button"
    if "posts (snd (run E api_key uploaded_file button)) \<noteq> []"
  proof (rule ccontr)
    assume "\<not> (api_key \<noteq> [] \<and> uploaded_file \<noteq> None \<and> button)"
    then consider "api_key = [] \<or> uploaded_file = None"
      | "api_key \<noteq> [] \<and> uploaded_file \<noteq> None \<and> \<not> button" by blast
    then show False
    proof cases
      case 1
      from a [OF 1] that show False by simp
    next
      case 2
      from b [OF 2] that show False by simp
    qed
  qed
  have e: "api_key \<noteq> [] \<and> uploaded_file \<noteq> None \<and> button"
    if "\<exists>s. St_info s \<in> set (snd (run E api_key uploaded_file button))"
  proof (rule ccontr)
    assume "\<not> (api_key \<noteq> [] \<and> uploaded_file \<noteq> None \<and> button)"
    then consider "api_key = [] \<or> uploaded_file = None"
      | "api_key \<noteq> [] \<and> uploaded_file \<noteq> None \<and> \<not> button" by blast
    then show False
    proof cases
      case 1
      from a [OF 1] that show False by simp
    next
      case 2
      from b [OF 2] that show False by simp
    qed
  qed
  show ?thesis
  proof (intro conjI impI)
    assume "api_key = [] \<or> uploaded_file = None"
    then show "run E api_key uploaded_file button =
        (Inr (), [St_title, St_intro, St_warning ''Please enter your Gemini API key and upload a dataset to proceed.'', St_rule, St_caption])"
      by (rule a)
  next
    assume "api_key \<noteq> [] \<and> uploaded_file \<noteq> None \<and> \<not> button"
    then show "run E api_key uploaded_file button =
        (Inr (), [St_title, St_intro, St_success ''API key and data file received!'', St_rule, St_caption])"
      by (rule b)
  next
    assume "api_key \<noteq> [] \<and> uploaded_file = Some f \<and> button"
    then show "run E api_key uploaded_file button =
          bnd (generate_report E api_key f) (\<lambda>_. bnd (emit St_rule) (\<lambda>_. emit St_caption))
            [St_title, St_intro, St_success ''API key and data file received!'']"
      by (rule c)
  qed (use d e in blast)+
qed


theorem pipeline_needs_key_file_and_button_witness:
  "(('''' :: string) = [] \<or> Some upload_ab = None)
   \<and> run (env_of ok_replies) '''' (Some upload_ab) True =
        (Inr (), [St_title, St_intro,
                  St_warning ''Please enter your Gemini API key and upload a dataset to proceed.'',
                  St_rule, St_caption])
   \<and> (''key'' \<noteq> [] \<and> Some upload_ab \<noteq> None \<and> \<not> False)
   \<and> run (env_of ok_replies) ''key'' (Some upload_ab) False =
        (Inr (), [St_title, St_intro, St_success ''API key and data file received!'', St_rule, St_caption])
   \<and> posts (snd (run (env_of ok_replies) ''key'' (Some upload_ab) True)) \<noteq> []
   \<and> (\<exists>s. St_info s \<in> set (snd (run (env_of ok_replies) ''key'' (Some upload_ab) True)))
   \<and> (''key'' \<noteq> [] \<and> Some upload_ab = Some upload_ab \<and> True)
   \<and> run (env_of ok_replies) ''key'' (Some upload_ab) True =
          bnd (generate_report (env_of ok_replies) ''key'' upload_ab)
            (\<lambda>_. bnd (emit St_rule) (\<lambda>_. emit St_caption))
            [St_title, St_intro, St_success ''API key and data file received!'']"
proof -
  have h1: "(('''' :: string) = [] \<or> Some upload_ab = None)" by simp
  have h2: "(''key'' \<noteq> [] \<and> Some upload_ab \<noteq> None \<and> \<not> False)" by simp
  have h3: "posts (snd (run (env_of ok_replies) ''key'' (Some upload_ab) True)) \<noteq> []"
    by code_simp
  have m: "St_info ''Step 1/6: Profiling Data...'' \<in> set (snd (run (env_of ok_replies) ''key'' (Some upload_ab) True))"
    by code_simp
  have h4: "\<exists>s. St_info s \<in> set (snd (run (env_of ok_replies) ''key'' (Some upload_ab) True))"
    by (rule exI, rule m)
  have h5: "(''key'' \<noteq> [] \<and> Some upload_ab = Some upload_ab \<and> True)" by simp
  note r1 = pipeline_needs_key_file_and_button [of "[]" "Some upload_ab" "env_of ok_replies" True upload_ab,
      THEN conjunct1, THEN mp, OF h1]
  note r2 = pipeline_needs_key_file_and_button [of "''key''" "Some upload_ab" "env_of ok_replies" False upload_ab,
      THEN conjunct2, THEN conjunct1, THEN mp, OF h2]
  note r3 = pipeline_needs_key_file_and_button [of "''key''" "Some upload_ab" "env_of ok_replies" True upload_ab,
      THEN conjunct2, THEN conjunct2, THEN conjunct2, THEN conjunct2, THEN mp, OF h5]
  show ?thesis
    by (rule conjI [OF h1 conjI [OF r1 conjI [OF h2 conjI [OF r2 conjI [OF h3 conjI [OF h4
        conjI [OF h5 r3]]]]]]])
qed

text \<open>
  Claim C9. The table is a value handed to the pipeline, which has no operation that
  changes or stores it. What the pipeline does depends on the table only through its
  column names and its first ten rows, and the prompt of stage 1 only through the
  column names and the first two rows: two tables that agree there give the same run.
\<close>

theorem dataset_only_read:
  "(columns d = columns d' \<and> take 10 (rows d) = take 10 (rows d') \<longrightarrow>
      pipeline E api_key d tr = pipeline E api_key d' tr)
   \<and> (columns d = columns d' \<and> take 2 (rows d) = take 2 (rows d') \<longrightarrow>
      profile_prompt d = profile_prompt d')"
proof (intro conjI impI)
  assume h: "columns d = columns d' \<and> take 10 (rows d) = take 10 (rows d')"
  then have c: "columns d = columns d'" and e10: "take 10 (rows d) = take 10 (rows d')"
    by blast+
  have "take 2 (take 10 (rows d)) = take 2 (take 10 (rows d'))"
    by (rule arg_cong [OF e10])
  then have e2: "take 2 (rows d) = take 2 (rows d')"
    by (simp add: take_take)
  have 1: "head 10 d = head 10 d'"
    by (rule head_cong [OF c e10])
  have 2: "profile_prompt d = profile_prompt d'"
    by (rule profile_prompt_cong [OF c e2])
  show "pipeline E api_key d tr = pipeline E api_key d' tr"
    unfolding pipeline_def stages_def stage_profile_def by (simp only: 1 2)
next
  assume "columns d = columns d' \<and> take 2 (rows d) = take 2 (rows d')"
  then show "profile_prompt d = profile_prompt d'"
    by (blast intro: profile_prompt_cong)
qed

theorem dataset_only_read_witness:
  "(columns (df_long [CInt 3, CInt 4]) = columns (df_long [CInt 5, CInt 6])
      \<and> take 10 (rows (df_long [CInt 3, CInt 4])) = take 10 (rows (df_long [CInt 5, CInt 6])))
   \<and> (columns (df_long [CInt 3, CInt 4]) = columns (df_long [CInt 5, CInt 6])
      \<and> take 2 (rows (df_long [CInt 3, CInt 4])) = take 2 (rows (df_long [CInt 5, CInt 6])))
   \<and> df_long [CInt 3, CInt 4] \<noteq> df_long [CInt 5, CInt 6]
   \<and> pipeline (env_of ok_replies) ''key'' (df_long [CInt 3, CInt 4]) []
       = pipeline (env_of ok_replies) ''key'' (df_long [CInt 5, CInt 6]) []
   \<and> profile_prompt (df_long [CInt 3, CInt 4]) = profile_prompt (df_long [CInt 5, CInt 6])"
proof -
  have h1: "columns (df_long [CInt 3, CInt 4]) = columns (df_long [CInt 5, CInt 6])
      \<and> take 10 (rows (df_long [CInt 3, CInt 4])) = take 10 (rows (df_long [CInt 5, CInt 6]))"
    by (simp add: df_long_def)
  have h2: "columns (df_long [CInt 3, CInt 4]) = columns (df_long [CInt 5, CInt 6])
      \<and> take 2 (rows (df_long [CInt 3, CInt 4])) = take 2 (rows (df_long [CInt 5, CInt 6]))"
    by (simp add: df_long_def)
  have h3: "df_long [CInt 3, CInt 4] \<noteq> df_long [CInt 5, CInt 6]"
    by (simp add: df_long_def)
  from h1 h2 h3
    dataset_only_read [of "df_long [CInt 3, CInt 4]" "df_long [CInt 5, CInt 6]" "env_of ok_replies" "''key''" "[]"]
  show ?thesis by blast
qed

end
